theory Spec2Isabelle
  imports Main
begin

section \<open>Strings of the host language\<close>

text \<open>
  A string is a list of code units; every code unit is taken below 256, so that
  \<open>length\<close> is the \<open>.length\<close> of the source. The functions of this section
  are the built-in string and array methods the sources call, under their own names.
\<close>

text \<open>\<open>String.prototype.toLowerCase\<close> on code units below 256: the ASCII capitals and
  the capitals \<open>0xC0..0xDE\<close> (without the multiplication sign \<open>0xD7\<close>) move up by 32.\<close>

definition toLowerChar :: "char \<Rightarrow> char" where
  "toLowerChar c =
     (let n = (of_char c :: nat)
      in if (65 \<le> n \<and> n \<le> 90) \<or> (192 \<le> n \<and> n \<le> 222 \<and> n \<noteq> 215)
         then char_of (n + 32) else c)"

definition toLowerCase :: "string \<Rightarrow> string" where
  "toLowerCase s = map toLowerChar s"

fun startsWith :: "string \<Rightarrow> string \<Rightarrow> bool" where
  "startsWith s [] = True"
| "startsWith [] (p # ps) = False"
| "startsWith (c # cs) (p # ps) = (c = p \<and> startsWith cs ps)"

text \<open>\<open>s.includes(p)\<close>: \<open>p\<close> occurs in \<open>s\<close> as a contiguous run.\<close>

fun includes_str :: "string \<Rightarrow> string \<Rightarrow> bool" where
  "includes_str [] p = (p = [])"
| "includes_str (c # cs) p = (startsWith (c # cs) p \<or> includes_str cs p)"

text \<open>\<open>s.split(c)\<close> for a separator of one code unit: never an empty array.\<close>

fun split_on :: "char \<Rightarrow> string \<Rightarrow> string list" where
  "split_on sep [] = [[]]"
| "split_on sep (c # cs) =
     (if c = sep then [] # split_on sep cs
      else (case split_on sep cs of
              [] \<Rightarrow> [[c]]
            | l # ls \<Rightarrow> (c # l) # ls))"

text \<open>\<open>xs.join(sep)\<close>.\<close>

fun join :: "string \<Rightarrow> string list \<Rightarrow> string" where
  "join sep [] = []"
| "join sep [x] = x"
| "join sep (x # y # ys) = x @ sep @ join sep (y # ys)"

text \<open>\<open>xs.slice(-n)\<close>: the last \<open>n\<close> elements (all of them when there are fewer).\<close>

definition slice_last :: "nat \<Rightarrow> 'a list \<Rightarrow> 'a list" where
  "slice_last n xs = drop (length xs - n) xs"

text \<open>Decimal digits of a natural number, as a template literal prints it.\<close>

fun digits_of :: "nat \<Rightarrow> string" where
  "digits_of n =
     (if n < 10 then [char_of (48 + n)]
      else digits_of (n div 10) @ [char_of (48 + n mod 10)])"

text \<open>Decimal text of an integer.\<close>

definition int_str :: "int \<Rightarrow> string" where
  "int_str n = (if n < 0 then CHR ''-'' # digits_of (nat (- n)) else digits_of (nat n))"

definition is_space :: "char \<Rightarrow> bool" where
  "is_space c = (of_char c \<in> {9, 10, 11, 12, 13, 32, 160 :: nat})"

definition is_word :: "char \<Rightarrow> bool" where
  "is_word c =
     (let n = (of_char c :: nat)
      in (48 \<le> n \<and> n \<le> 57) \<or> (65 \<le> n \<and> n \<le> 90) \<or> (97 \<le> n \<and> n \<le> 122) \<or> n = 95)"

definition is_line_term :: "char \<Rightarrow> bool" where
  "is_line_term c = (of_char c \<in> {10, 13 :: nat})"

text \<open>\<open>s.trim()\<close>.\<close>

definition trim :: "string \<Rightarrow> string" where
  "trim s = rev (dropWhile is_space (rev (dropWhile is_space s)))"

text \<open>\<open>[...new Set(xs)]\<close>: the first occurrence of every element, in order.\<close>

definition uniq :: "'a list \<Rightarrow> 'a list" where
  "uniq xs = rev (remdups (rev xs))"

section \<open>Values of the host language\<close>

text \<open>
  The values a structured descriptor (\<open>Record<string, unknown>\<close>) can hold: what JSON
  can carry, numbers being integers, and \<open>undefined\<close>. An object lists its own
  properties in the order of their creation. A missing property is \<open>None\<close>: it reads
  as \<open>undefined\<close>.
\<close>

datatype jsval =
    JUndefined
  | JNull
  | JBool bool
  | JNum int
  | JStr string
  | JArr "jsval list"
  | JObj "(string \<times> jsval) list"

type_synonym jsobject = "(string \<times> jsval) list"

datatype error =
    TypeError
  | ELOCKED
  | EngineError string

text \<open>\<open>toolInput?.key\<close>.\<close>

definition get_prop :: "jsobject option \<Rightarrow> string \<Rightarrow> jsval option" where
  "get_prop obj k = (case obj of None \<Rightarrow> None | Some kvs \<Rightarrow> map_of kvs k)"

text \<open>Truthiness, as \<open>if (v)\<close> and \<open>a || b\<close> read it.\<close>

fun truthy :: "jsval option \<Rightarrow> bool" where
  "truthy None = False"
| "truthy (Some JUndefined) = False"
| "truthy (Some JNull) = False"
| "truthy (Some (JBool b)) = b"
| "truthy (Some (JNum n)) = (n \<noteq> 0)"
| "truthy (Some (JStr s)) = (s \<noteq> [])"
| "truthy (Some (JArr xs)) = True"
| "truthy (Some (JObj kvs)) = True"

definition js_or :: "jsval option \<Rightarrow> jsval option \<Rightarrow> jsval option" where
  "js_or a b = (if truthy a then a else b)"

text \<open>
  The text a template literal \<open>`${v}`\<close> gives a value. An array joins its elements
  with commas, \<open>null\<close> and \<open>undefined\<close> elements being empty; a plain object is \<open>[object Object]\<close>,
  unless it has a property \<open>toString\<close> of its own: that property is data, it cannot
  be called, and the conversion raises a \<open>TypeError\<close>.
\<close>

fun js_toString :: "jsval \<Rightarrow> error + string" where
  "js_toString JUndefined = Inr ''undefined''"
| "js_toString JNull = Inr ''null''"
| "js_toString (JBool b) = Inr (if b then ''true'' else ''false'')"
| "js_toString (JNum n) = Inr (int_str n)"
| "js_toString (JStr s) = Inr s"
| "js_toString (JObj kvs) =
     (if ''toString'' \<in> fst ` set kvs then Inl TypeError else Inr ''[object Object]'')"
| "js_toString (JArr xs) =
     (let rs = map (\<lambda>x. if x = JNull \<or> x = JUndefined then Inr [] else js_toString x) xs
      in if list_ex isl rs then Inl TypeError else Inr (join '','' (map projr rs)))"

section \<open>Regular expressions of the host language\<close>

text \<open>
  The patterns of \<open>compression.ts\<close> use literals, character classes, the anchors
  \<open>^\<close> and \<open>$\<close> under the flag \<open>m\<close>, the word boundary, sequence, alternative,
  and the greedy operators \<open>?\<close>, \<open>*\<close> and \<open>+\<close>. \<open>rx_ends r s i\<close> lists the
  positions where a match of \<open>r\<close> that starts at \<open>i\<close> can end, in the order a
  backtracking matcher tries them; an iteration of \<open>*\<close> that consumes nothing is not
  taken.
\<close>

datatype rx =
    Eps
  | Atom "char \<Rightarrow> bool"
  | Bol
  | Eol
  | WordB
  | Seq rx rx
  | Alt rx rx
  | Opt rx
  | Star rx

function rx_ends :: "rx \<Rightarrow> string \<Rightarrow> nat \<Rightarrow> nat list" where
  "rx_ends Eps s i = [i]"
| "rx_ends (Atom p) s i = (if i < length s \<and> p (s ! i) then [Suc i] else [])"
| "rx_ends Bol s i = (if i = 0 \<or> (i \<le> length s \<and> is_line_term (s ! (i - 1))) then [i] else [])"
| "rx_ends Eol s i = (if i \<ge> length s \<or> is_line_term (s ! i) then [i] else [])"
| "rx_ends WordB s i =
     (let a = (0 < i \<and> i \<le> length s \<and> is_word (s ! (i - 1)));
          b = (i < length s \<and> is_word (s ! i))
      in if a \<noteq> b then [i] else [])"
| "rx_ends (Seq a b) s i = concat (map (\<lambda>j. rx_ends b s j) (rx_ends a s i))"
| "rx_ends (Alt a b) s i = rx_ends a s i @ rx_ends b s i"
| "rx_ends (Opt a) s i = rx_ends a s i @ [i]"
| "rx_ends (Star a) s i =
     concat (map (\<lambda>j. if i < j \<and> j \<le> length s then rx_ends (Star a) s j else [])
                 (rx_ends a s i)) @ [i]"
  by pat_completeness auto
termination
  by (relation "measures [\<lambda>(r, s, i). size r, \<lambda>(r, s, i). length s - i]") auto

definition Plus :: "rx \<Rightarrow> rx" where
  "Plus a = Seq a (Star a)"

definition seqs :: "rx list \<Rightarrow> rx" where
  "seqs rs = foldr Seq rs Eps"

definition alts :: "rx list \<Rightarrow> rx" where
  "alts rs = (case rs of [] \<Rightarrow> Eps | r # rest \<Rightarrow> foldl Alt r rest)"

definition lit :: "string \<Rightarrow> rx" where
  "lit w = seqs (map (\<lambda>c. Atom (\<lambda>x. x = c)) w)"

definition one_of :: "string \<Rightarrow> rx" where
  "one_of cs = Atom (\<lambda>x. x \<in> set cs)"

definition dot :: rx where
  "dot = Atom (\<lambda>x. \<not> is_line_term x)"

definition sp :: rx where
  "sp = Atom is_space"

definition wd :: rx where
  "wd = Atom is_word"

text \<open>
  \<open>s.match(r)\<close> for a pattern with the flag \<open>g\<close>: the matched texts from left to
  right, the search resuming where the last match ended (one further after an empty
  match); the empty list stands for \<open>null\<close>, which every caller replaces by \<open>[]\<close>.
\<close>

function match_from :: "rx \<Rightarrow> string \<Rightarrow> nat \<Rightarrow> string list" where
  "match_from r s k =
     (if length s < k then []
      else (case rx_ends r s k of
              [] \<Rightarrow> match_from r s (Suc k)
            | e # _ \<Rightarrow> take (e - k) (drop k s) # match_from r s (max (Suc k) e)))"
  by pat_completeness auto
termination
  by (relation "measure (\<lambda>(r, s, k). Suc (length s) - k)") auto

definition match_all :: "rx \<Rightarrow> string \<Rightarrow> string list" where
  "match_all r s = match_from r s 0"

text \<open>\<open>r.test(s)\<close> for a pattern without the flag \<open>g\<close>: a match starts somewhere.\<close>

definition rx_test :: "rx \<Rightarrow> string \<Rightarrow> bool" where
  "rx_test r s = list_ex (\<lambda>k. rx_ends r s k \<noteq> []) [0 ..< Suc (length s)]"

text \<open>A literal under the flag \<open>i\<close>; the literals of the sources are lower-case ASCII.\<close>

definition lit_ci :: "string \<Rightarrow> rx" where
  "lit_ci w = seqs (map (\<lambda>c. Atom (\<lambda>x. toLowerChar x = c)) w)"

text \<open>\<open>xs.pop()\<close> read as a value: \<open>undefined\<close> on the empty array.\<close>

definition pop :: "'a list \<Rightarrow> 'a option" where
  "pop xs = (if xs = [] then None else Some (last xs))"

text \<open>\<open>xs[0]\<close>.\<close>

definition first_elem :: "'a list \<Rightarrow> 'a option" where
  "first_elem xs = (case xs of [] \<Rightarrow> None | x # _ \<Rightarrow> Some x)"

section \<open>Compression of tool outputs (\<open>utils/compression.ts\<close>)\<close>

definition TARGET_COMPRESSED_SIZE :: nat where
  "TARGET_COMPRESSED_SIZE = 2000"

definition COMPRESSION_THRESHOLD :: nat where
  "COMPRESSION_THRESHOLD = 3000"

record CompressionResult =
  compressed :: string
  wasCompressed :: bool
  originalSize :: nat

definition nl :: string where
  "nl = [CHR 0x0A]"

definition split_lines :: "string \<Rightarrow> string list" where
  "split_lines s = split_on (CHR 0x0A) s"

definition extractImports :: "string \<Rightarrow> string list" where
  "extractImports code =
     concat (map (\<lambda>pattern. match_all pattern code)
       [seqs [Bol, lit ''import'', Plus sp, Plus dot, Eol],
        seqs [Bol, lit ''const'', Plus sp, Plus wd, Star sp, lit ''='', Star sp,
              lit ''require('', Plus dot, lit '')'', Eol],
        seqs [Bol, lit ''use'', Plus sp, Plus dot, lit '';'', Eol]])"

definition extractExports :: "string \<Rightarrow> string list" where
  "extractExports code =
     concat (map (\<lambda>pattern. match_all pattern code)
       [seqs [Bol, lit ''export'', Plus sp, Opt (seqs [lit ''default'', Plus sp]),
              alts [lit ''function'', lit ''class'', lit ''const'', lit ''let'', lit ''var'',
                    lit ''interface'', lit ''type''],
              Plus sp, Plus wd],
        seqs [Bol, lit ''pub'', Plus sp,
              alts [lit ''fn'', lit ''struct'', lit ''enum'', lit ''trait''],
              Plus sp, Plus wd],
        seqs [Bol, lit ''module.exports'', Star sp, lit ''='']])"

definition extractFunctionSignatures :: "string \<Rightarrow> string list" where
  "extractFunctionSignatures code =
     uniq (concat (map (\<lambda>pattern. map trim (match_all pattern code))
       [seqs [Bol, Opt (seqs [lit ''export'', Plus sp]), Opt (seqs [lit ''async'', Plus sp]),
              lit ''function'', Plus sp, Plus wd, Star sp,
              lit ''('', Star (Atom (\<lambda>x. x \<noteq> CHR '')'')), lit '')''],
        seqs [Bol, Star sp, Opt (alts [lit ''public'', lit ''private'', lit ''protected'']),
              Star sp, Opt (seqs [lit ''async'', Plus sp]), Plus wd, Star sp,
              lit ''('', Star (Atom (\<lambda>x. x \<noteq> CHR '')'')), lit '')'', Star sp, one_of '':{''],
        seqs [Bol, Opt (seqs [lit ''pub'', Plus sp]), lit ''fn'', Plus sp, Plus wd, Star sp,
              one_of ''<(''],
        seqs [Bol, lit ''def'', Plus sp, Plus wd, Star sp, lit ''('']]))"

text \<open>
  The loop over \<open>pattern.exec(code)\<close> collects the third group of every match. The
  pattern ends in that group, \<open>(\w+)\<close>, and white space stands before it, so the
  group is the run of word characters that ends the matched text.
\<close>

definition extractClassNames :: "string \<Rightarrow> string list" where
  "extractClassNames code =
     map (\<lambda>m. rev (takeWhile is_word (rev m)))
       (match_all
          (seqs [Bol, Opt (seqs [lit ''export'', Plus sp]), Opt (seqs [lit ''abstract'', Plus sp]),
                 lit ''class'', Plus sp, Plus wd])
          code)"

definition extractErrorPatterns :: "string \<Rightarrow> string list" where
  "extractErrorPatterns code =
     map trim
       (match_all
          (seqs [Bol, Star dot, WordB,
                 alts [lit ''TODO'', lit ''FIXME'', lit ''HACK'', lit ''XXX'', lit ''BUG'',
                       lit ''NOTE''],
                 WordB, Star dot, Eol])
          code)"

definition truncateToTarget :: "string \<Rightarrow> string" where
  "truncateToTarget text =
     (if length text \<le> TARGET_COMPRESSED_SIZE then text
      else take TARGET_COMPRESSED_SIZE text @ nl @ ''... (truncated)'')"

text \<open>A section that is pushed to \<open>parts\<close> only when its list is not empty.\<close>

definition section_of :: "string \<Rightarrow> string \<Rightarrow> nat \<Rightarrow> string list \<Rightarrow> string list" where
  "section_of title sep n xs = (if xs = [] then [] else [nl @ title @ join sep (take n xs)])"

definition compressFileRead :: "jsobject option \<Rightarrow> string \<Rightarrow> error + string" where
  "compressFileRead toolInput output =
     (let lines = split_lines output;
          filePath = js_or (get_prop toolInput ''file_path'') (get_prop toolInput ''filePath'')
      in case (case filePath of
                 None \<Rightarrow> Inr []
               | Some v \<Rightarrow>
                   if truthy filePath
                   then (case js_toString v of Inl e \<Rightarrow> Inl e | Inr t \<Rightarrow> Inr [''File: '' @ t])
                   else Inr []) of
           Inl e \<Rightarrow> Inl e
         | Inr parts0 \<Rightarrow>
             Inr (join nl
               (parts0
                @ section_of (''Imports:'' @ nl) nl 10 (extractImports output)
                @ section_of (''Exports:'' @ nl) nl 10 (extractExports output)
                @ section_of (''Functions:'' @ nl) nl 15 (extractFunctionSignatures output)
                @ (let classes = extractClassNames output
                   in if classes = [] then [] else [nl @ ''Classes: '' @ join '', '' classes])
                @ section_of (''Notes:'' @ nl) nl 5 (extractErrorPatterns output)
                @ (if length lines > 15
                   then [nl @ ''First 10 lines:'' @ nl @ join nl (take 10 lines),
                         nl @ ''Last 5 lines:'' @ nl @ join nl (slice_last 5 lines)]
                   else []))))"

definition compressBashOutput :: "jsobject option \<Rightarrow> string \<Rightarrow> error + string" where
  "compressBashOutput toolInput output =
     (let lines = split_lines output;
          command = get_prop toolInput ''command''
      in case (if truthy command
               then (case command of
                       Some (JStr c) \<Rightarrow>
                         Inr [''Command: '' @
                              take 100 (case first_elem (split_lines c) of None \<Rightarrow> [] | Some l \<Rightarrow> l)]
                     | _ \<Rightarrow> Inl TypeError)
               else Inr []) of
           Inl e \<Rightarrow> Inl e
         | Inr parts0 \<Rightarrow>
             Inr (join nl
               (parts0
                @ section_of (''Errors/Warnings:'' @ nl) nl 10
                    (filter (rx_test (alts [lit_ci ''error'', lit_ci ''failed'',
                                            lit_ci ''exception'', lit_ci ''warning''])) lines)
                @ section_of (''Success:'' @ nl) nl 5
                    (filter (rx_test (alts [lit_ci ''success'', lit_ci ''passed'',
                                            lit_ci ''completed'', lit_ci ''done''])) lines)
                @ (if length lines > 20
                   then [nl @ ''Output ('' @ digits_of (length lines) @ '' lines):'',
                         join nl (take 10 lines),
                         ''...'',
                         join nl (slice_last 5 lines)]
                   else [nl @ ''Output:'' @ nl @ output]))))"

definition compressGrepOutput :: "jsobject option \<Rightarrow> string \<Rightarrow> error + string" where
  "compressGrepOutput toolInput output =
     (let lines = filter (\<lambda>l. l \<noteq> []) (split_lines output);
          pattern = get_prop toolInput ''pattern''
      in case (case pattern of
                 None \<Rightarrow> Inr []
               | Some v \<Rightarrow>
                   if truthy pattern
                   then (case js_toString v of Inl e \<Rightarrow> Inl e | Inr t \<Rightarrow> Inr [''Pattern: '' @ t])
                   else Inr []) of
           Inl e \<Rightarrow> Inl e
         | Inr parts0 \<Rightarrow>
             (let files = remdups (filter (\<lambda>f. f \<noteq> [])
                            (map (\<lambda>l. case first_elem (split_on (CHR '':'') l) of
                                         None \<Rightarrow> [] | Some f \<Rightarrow> f) lines))
              in Inr (join nl
                   (parts0
                    @ [''Found '' @ digits_of (length lines) @ '' matches in ''
                         @ digits_of (length files) @ '' files'']
                    @ [nl @ ''Top matches:'' @ nl @ join nl (take 10 lines)]
                    @ (if length lines > 10
                       then [nl @ ''... and '' @ digits_of (length lines - 10) @ '' more matches'']
                       else [])))))"

text \<open>
  The names every plain object inherits from \<open>Object.prototype\<close>. \<open>dirs[dir]\<close> for
  such a name is no array and is not \<open>undefined\<close> either: the test
  \<open>if (!dirs[dir])\<close> does not fire, and \<open>dirs[dir].push\<close> is not a function.
\<close>

definition object_prototype_keys :: "string list" where
  "object_prototype_keys =
     [''constructor'', ''__defineGetter__'', ''__defineSetter__'', ''hasOwnProperty'',
      ''__lookupGetter__'', ''__lookupSetter__'', ''isPrototypeOf'', ''propertyIsEnumerable'',
      ''toString'', ''valueOf'', ''__proto__'', ''toLocaleString'']"

text \<open>\<open>dirs[dir].push(name)\<close> on the own properties, after \<open>dirs[dir] = []\<close> for a new key.\<close>

fun push_dir :: "(string \<times> string list) list \<Rightarrow> string \<Rightarrow> string \<Rightarrow> (string \<times> string list) list" where
  "push_dir [] dir name = [(dir, [name])]"
| "push_dir ((k, fs) # rest) dir name =
     (if k = dir then (k, fs @ [name]) # rest else (k, fs) # push_dir rest dir name)"

fun group_dirs :: "string list \<Rightarrow> (string \<times> string list) list \<Rightarrow> error + (string \<times> string list) list" where
  "group_dirs [] dirs = Inr dirs"
| "group_dirs (line # rest) dirs =
     (let segs = split_on (CHR ''/'') line;
          d = join ''/'' (butlast segs);
          dir = (if d = [] then ''.'' else d);
          name = (case pop segs of None \<Rightarrow> line | Some n \<Rightarrow> if n = [] then line else n)
      in if dir \<in> set object_prototype_keys then Inl TypeError
         else group_dirs rest (push_dir dirs dir name))"

text \<open>Value of a string of decimal digits.\<close>

definition digits_val :: "string \<Rightarrow> nat" where
  "digits_val ds = foldl (\<lambda>a c. 10 * a + (of_char c - 48)) 0 ds"

definition is_digit :: "char \<Rightarrow> bool" where
  "is_digit c = (48 \<le> (of_char c :: nat) \<and> (of_char c :: nat) \<le> 57)"

text \<open>
  \<open>Object.entries\<close> lists the keys that are array indices first (canonical decimal
  numbers below \<open>2^32 - 1\<close>), in ascending order, and the other keys after them in the
  order of their creation.
\<close>

definition is_array_index :: "string \<Rightarrow> bool" where
  "is_array_index k =
     (k \<noteq> [] \<and> list_all is_digit k \<and> (k = ''0'' \<or> \<not> startsWith k ''0'')
      \<and> digits_val k < 4294967295)"

definition object_entries :: "(string \<times> 'a) list \<Rightarrow> (string \<times> 'a) list" where
  "object_entries kvs =
     sort_key (\<lambda>(k, v). digits_val k) (filter (\<lambda>(k, v). is_array_index k) kvs)
     @ filter (\<lambda>(k, v). \<not> is_array_index k) kvs"

definition compressGlobOutput :: "jsobject option \<Rightarrow> string \<Rightarrow> error + string" where
  "compressGlobOutput toolInput output =
     (let lines = filter (\<lambda>l. l \<noteq> []) (split_lines output);
          pattern = get_prop toolInput ''pattern''
      in case (case pattern of
                 None \<Rightarrow> Inr []
               | Some v \<Rightarrow>
                   if truthy pattern
                   then (case js_toString v of Inl e \<Rightarrow> Inl e | Inr t \<Rightarrow> Inr [''Pattern: '' @ t])
                   else Inr []) of
           Inl e \<Rightarrow> Inl e
         | Inr parts0 \<Rightarrow>
             (case group_dirs lines [] of
                Inl e \<Rightarrow> Inl e
              | Inr dirs \<Rightarrow>
                  (let sortedDirs =
                         take 5 (sort_key (\<lambda>(dir, files). - int (length files))
                                   (object_entries dirs))
                   in Inr (join nl
                        (parts0
                         @ [''Found '' @ digits_of (length lines) @ '' files'']
                         @ concat (map (\<lambda>(dir, files).
                                     [nl @ dir @ ''/ ('' @ digits_of (length files) @ '' files)'',
                                      join nl (map (\<lambda>f. ''  '' @ f) (take 5 files))]
                                     @ (if length files > 5
                                        then [''  ... and '' @ digits_of (length files - 5) @ '' more'']
                                        else []))
                                   sortedDirs))))))"

definition compressEditOutput :: "jsobject option \<Rightarrow> string \<Rightarrow> error + string" where
  "compressEditOutput toolInput output =
     (let filePath = js_or (get_prop toolInput ''file_path'') (get_prop toolInput ''filePath'')
      in case (case filePath of
                 None \<Rightarrow> Inr None
               | Some JUndefined \<Rightarrow> Inr None
               | Some JNull \<Rightarrow> Inr None
               | Some (JStr p) \<Rightarrow> Inr (pop (split_on (CHR ''/'') p))
               | Some _ \<Rightarrow> Inl TypeError) of
           Inl e \<Rightarrow> Inl e
         | Inr popped \<Rightarrow>
             (let fileName = (case popped of None \<Rightarrow> ''file''
                              | Some n \<Rightarrow> if n = [] then ''file'' else n);
                  shown = (case filePath of
                             Some (JStr p) \<Rightarrow> if p = [] then ''unknown'' else p
                           | _ \<Rightarrow> ''unknown'')
              in Inr (''File: '' @ fileName @ nl @ ''Path: '' @ shown @ nl
                      @ ''Changes applied.'' @ nl @ nl @ take 500 output)))"

definition compressGeneric :: "string \<Rightarrow> string" where
  "compressGeneric output =
     (let lines = split_lines output
      in if length lines \<le> 30 then output
         else join nl
                (take 15 lines
                 @ [nl @ ''... ('' @ digits_of (length lines - 25) @ '' lines omitted) ...'' @ nl]
                 @ slice_last 10 lines))"

text \<open>The \<open>switch\<close> of \<open>compressToolOutput\<close>: the strategy chosen by the tool.\<close>

definition compressStrategy :: "string \<Rightarrow> jsobject option \<Rightarrow> string \<Rightarrow> error + string" where
  "compressStrategy toolName toolInput output =
     (let tool = toLowerCase toolName
      in if tool = ''read'' then compressFileRead toolInput output
         else if tool = ''bash'' then compressBashOutput toolInput output
         else if tool = ''grep'' then compressGrepOutput toolInput output
         else if tool = ''glob'' then compressGlobOutput toolInput output
         else if tool = ''edit'' \<or> tool = ''write'' \<or> tool = ''update''
         then compressEditOutput toolInput output
         else Inr (compressGeneric output))"

definition compressToolOutput ::
  "string \<Rightarrow> jsobject option \<Rightarrow> string \<Rightarrow> bool \<Rightarrow> error + CompressionResult" where
  "compressToolOutput toolName toolInput output autoCompress =
     (let originalSize = length output
      in if \<not> autoCompress \<or> originalSize < COMPRESSION_THRESHOLD
         then Inr \<lparr>compressed = output, wasCompressed = False, originalSize = originalSize\<rparr>
         else (case compressStrategy toolName toolInput output of
                 Inl e \<Rightarrow> Inl e
               | Inr c \<Rightarrow>
                   Inr \<lparr>compressed = truncateToTarget c, wasCompressed = True,
                         originalSize = originalSize\<rparr>))"

section \<open>Observation types and their classification (\<open>utils/helpers.ts\<close>)\<close>

text \<open>The union type \<open>ObservationType\<close> of \<open>types.ts\<close>: ten string tags.\<close>

type_synonym ObservationType = string

definition ObservationTypes :: "ObservationType list" where
  "ObservationTypes =
     [''discovery'', ''decision'', ''problem'', ''solution'', ''pattern'',
      ''warning'', ''success'', ''refactor'', ''bugfix'', ''feature'']"

definition classifyObservationType :: "string \<Rightarrow> string \<Rightarrow> ObservationType" where
  "classifyObservationType toolName output =
     (let lower = toLowerCase output in
      if includes_str lower ''error'' \<or> includes_str lower ''failed''
           \<or> includes_str lower ''exception''
      then ''problem''
      else if includes_str lower ''success'' \<or> includes_str lower ''passed''
           \<or> includes_str lower ''completed''
      then ''success''
      else if includes_str lower ''warning'' \<or> includes_str lower ''deprecated''
      then ''warning''
      else
        (let tool = toLowerCase toolName in
         if tool = ''read'' \<or> tool = ''glob'' \<or> tool = ''grep'' then ''discovery''
         else if tool = ''edit'' \<or> tool = ''update''
         then (if includes_str lower ''fix'' \<or> includes_str lower ''bug''
               then ''bugfix'' else ''refactor'')
         else if tool = ''write'' then ''feature''
         else ''discovery''))"

text \<open>
  What "contains a word, case-insensitively" means, said without the code's
  lower-casing of the whole text: some contiguous part of the text is the word up
  to the case of its letters.
\<close>

definition contains_ci :: "string \<Rightarrow> string \<Rightarrow> bool" where
  "contains_ci s w = (\<exists>pre mid post. s = pre @ mid @ post \<and> toLowerCase mid = w)"

section \<open>Files and advisory locks (\<open>utils/lock.ts\<close>)\<close>

text \<open>
  The state the program shares with other processes: the files, by path and in the
  order a directory lists them; the lock files some process holds; the history of
  the locks this process took and gave back; and the paths on which the operating
  system refuses a rename, an unlink or the listing of a directory. Directories are
  implicit, so \<open>mkdir\<close> with \<open>recursive\<close> changes nothing; paths are taken
  normalised.
\<close>

datatype lock_event = Acquired string | Released string

record world =
  files :: "(string \<times> string) list"
  held :: "string list"
  lock_log :: "lock_event list"
  rename_denied :: "string list"
  unlink_denied :: "string list"
  readdir_denied :: "string list"

fun put_entry :: "('k \<times> 'v) list \<Rightarrow> 'k \<Rightarrow> 'v \<Rightarrow> ('k \<times> 'v) list" where
  "put_entry [] k v = [(k, v)]"
| "put_entry ((k', v') # rest) k v =
     (if k' = k then (k, v) # rest else (k', v') # put_entry rest k v)"

definition fs_read :: "world \<Rightarrow> string \<Rightarrow> string option" where
  "fs_read w p = map_of (files w) p"

definition fs_write :: "world \<Rightarrow> string \<Rightarrow> string \<Rightarrow> world" where
  "fs_write w p c = w\<lparr>files := put_entry (files w) p c\<rparr>"

definition fs_remove :: "world \<Rightarrow> string \<Rightarrow> world" where
  "fs_remove w p = w\<lparr>files := filter (\<lambda>(k, c). k \<noteq> p) (files w)\<rparr>"

definition existsSync :: "world \<Rightarrow> string \<Rightarrow> bool" where
  "existsSync w p = (fs_read w p \<noteq> None)"

text \<open>\<open>renameSync\<close> and \<open>unlinkSync\<close>: \<open>None\<close> when the call throws.\<close>

definition renameSync :: "world \<Rightarrow> string \<Rightarrow> string \<Rightarrow> world option" where
  "renameSync w a b =
     (case fs_read w a of
        None \<Rightarrow> None
      | Some c \<Rightarrow> if a \<in> set (rename_denied w) then None
                  else Some (fs_write (fs_remove w a) b c))"

definition unlinkSync :: "world \<Rightarrow> string \<Rightarrow> world option" where
  "unlinkSync w p =
     (if fs_read w p = None \<or> p \<in> set (unlink_denied w) then None
      else Some (fs_remove w p))"

definition path_prefix :: "string \<Rightarrow> string" where
  "path_prefix dir = (if dir = ''/'' then ''/'' else dir @ ''/'')"

text \<open>\<open>resolve(dir, name)\<close> for an absolute directory and a plain name.\<close>

definition path_resolve :: "string \<Rightarrow> string \<Rightarrow> string" where
  "path_resolve dir name = (if startsWith name ''/'' then name else path_prefix dir @ name)"

definition path_dirname :: "string \<Rightarrow> string" where
  "path_dirname p =
     (let segs = split_on (CHR ''/'') p
      in if length segs \<le> 1 then ''.''
         else (let d = join ''/'' (butlast segs) in if d = [] then ''/'' else d))"

definition is_child :: "string \<Rightarrow> string \<Rightarrow> bool" where
  "is_child dir p =
     (startsWith p (path_prefix dir)
      \<and> (let n = drop (length (path_prefix dir)) p in n \<noteq> [] \<and> CHR ''/'' \<notin> set n))"

text \<open>The names of the files of a directory, in the order it lists them.\<close>

definition dir_entries :: "world \<Rightarrow> string \<Rightarrow> string list" where
  "dir_entries w dir =
     map (drop (length (path_prefix dir))) (filter (is_child dir) (map fst (files w)))"

text \<open>\<open>readdirSync(dir)\<close>: \<open>None\<close> when the call throws.\<close>

definition readdirSync :: "world \<Rightarrow> string \<Rightarrow> string list option" where
  "readdirSync w dir =
     (if dir \<in> set (readdir_denied w) then None else Some (dir_entries w dir))"

text \<open>
  \<open>lockfile.lock\<close> retries while another holder keeps the lock and gives up with
  \<open>ELOCKED\<close>; in this sequential model a lock that is held stays held.
  \<open>release\<close> of a lock taken succeeds.
\<close>

definition lockfile_lock :: "string \<Rightarrow> world \<Rightarrow> error + world" where
  "lockfile_lock p w =
     (if p \<in> set (held w) then Inl ELOCKED
      else Inr (w\<lparr>held := p # held w, lock_log := lock_log w @ [Acquired p]\<rparr>))"

definition lockfile_release :: "string \<Rightarrow> world \<Rightarrow> world" where
  "lockfile_release p w =
     w\<lparr>held := removeAll p (held w), lock_log := lock_log w @ [Released p]\<rparr>"

definition withMindLock ::
  "string \<Rightarrow> (world \<Rightarrow> (error + 'a) \<times> world) \<Rightarrow> world \<Rightarrow> (error + 'a) \<times> world" where
  "withMindLock memoryPath fn w =
     (let lockPath = memoryPath @ ''.lock'';
          w1 = (if existsSync w lockPath then w else fs_write w lockPath [])
      in case lockfile_lock lockPath w1 of
           Inl e \<Rightarrow> (Inl e, w1)
         | Inr w2 \<Rightarrow> (case fn w2 of (r, w3) \<Rightarrow> (r, lockfile_release lockPath w3)))"

section \<open>The memory store (\<open>core/mind.ts\<close>)\<close>

text \<open>
  The external engine is a parameter. \<open>sdk_use path content\<close> is
  \<open>use("basic", path)\<close> on a file with that content (\<open>None\<close>: no such file): the
  message of the error it throws, or a handle. \<open>sdk_create path\<close> is
  \<open>create(path, "basic")\<close>: an error message, or a handle and the content of the file
  it writes at the path. \<open>sdk_put h frame\<close> is \<open>h.put(frame)\<close>: an error message, or
  the frame's identifier and the new content of the file. The engine touches no other
  file.
\<close>

record frame =
  f_title :: string
  f_label :: string
  f_text :: string
  f_metadata :: jsobject
  f_tags :: "string list"

record 'h engine =
  sdk_use :: "string \<Rightarrow> string option \<Rightarrow> string + 'h"
  sdk_create :: "string \<Rightarrow> string + 'h \<times> string"
  sdk_put :: "'h \<Rightarrow> frame \<Rightarrow> string + string \<times> string"

text \<open>\<open>MindConfig\<close>, without the fraction \<open>minConfidence\<close>, which nothing here reads.\<close>

record MindConfig =
  cfg_memoryPath :: string
  cfg_maxContextObservations :: nat
  cfg_maxContextTokens :: nat
  cfg_autoCompress :: bool
  cfg_debug :: bool

definition DEFAULT_CONFIG :: MindConfig where
  "DEFAULT_CONFIG =
     \<lparr>cfg_memoryPath = ''.claude/mind.mv2'', cfg_maxContextObservations = 20,
      cfg_maxContextTokens = 2000, cfg_autoCompress = True, cfg_debug = False\<rparr>"

record 'h Mind =
  m_memvid :: 'h
  m_config :: MindConfig
  m_sessionId :: string
  m_directory :: string
  m_initialized :: bool
  m_sessionStartTime :: nat

definition CORRUPTION_PATTERNS :: "string list" where
  "CORRUPTION_PATTERNS =
     [''Deserialization'', ''UnexpectedVariant'', ''Invalid'', ''corrupt'',
      ''validation failed'', ''unable to recover'', ''table of contents'',
      ''version mismatch'']"

definition MAX_FILE_SIZE_MB :: nat where
  "MAX_FILE_SIZE_MB = 100"

text \<open>
  What \<open>pruneBackups\<close> takes from the host's library, where the language leaves the
  outcome to the host or the outcome depends on the text of a pattern:
  \<open>RegExp_new src\<close> is \<open>new RegExp(src)\<close>, \<open>None\<close> when the constructor throws
  and otherwise the function \<open>test\<close> of the pattern; \<open>parseInt_exact\<close> says whether
  \<open>parseInt\<close> reads the digits after the 20th significant one (a host may read
  them as zeros); \<open>sort_inconsistent\<close> is the order \<open>sort\<close> gives a list that
  its comparison function does not order consistently.
\<close>

record host =
  RegExp_new :: "string \<Rightarrow> (string \<Rightarrow> bool) option"
  parseInt_exact :: bool
  sort_inconsistent :: "string list \<Rightarrow> string list"

text \<open>\<open>baseName.replace(".", "\\.")\<close>: a backslash before the first dot.\<close>

fun replace_first_dot :: "string \<Rightarrow> string" where
  "replace_first_dot [] = []"
| "replace_first_dot (c # cs) =
     (if c = CHR ''.'' then CHR 0x5C # CHR ''.'' # cs else c # replace_first_dot cs)"

text \<open>The source of the pattern: \<open>^\<close>, the base name so changed, and
  \<open>\.backup-\d+$\<close>.\<close>

definition backupSource :: "string \<Rightarrow> string" where
  "backupSource baseName =
     ''^'' @ replace_first_dot baseName @ [CHR 0x5C] @ ''.backup-'' @ [CHR 0x5C] @ ''d+$''"

text \<open>The number of binary digits of a natural number.\<close>

fun bit_length :: "nat \<Rightarrow> nat" where
  "bit_length n = (if n = 0 then 0 else Suc (bit_length (n div 2)))"

text \<open>
  The number a double holds for a natural number: the nearest one with 53
  significant bits, the even one of two nearest; \<open>2 ^ 1024\<close> stands for infinity.
\<close>

definition js_double :: "nat \<Rightarrow> nat" where
  "js_double n =
     (if bit_length n \<le> 53 then n
      else (let e = bit_length n - 53;
                q = n div 2 ^ e;
                r = n mod 2 ^ e;
                h = 2 ^ (e - 1);
                q' = (if h < r \<or> (r = h \<and> odd q) then q + 1 else q)
            in if q' * 2 ^ e < 2 ^ 1024 then q' * 2 ^ e else 2 ^ 1024))"

text \<open>The number \<open>parseInt\<close> reads from a run of decimal digits.\<close>

definition number_of_digits :: "host \<Rightarrow> string \<Rightarrow> nat" where
  "number_of_digits h ds =
     (let zeros = takeWhile (\<lambda>c. c = CHR ''0'') ds;
          sig = dropWhile (\<lambda>c. c = CHR ''0'') ds
      in js_double (digits_val
           (if parseInt_exact h then ds
            else zeros @ take 20 sig @ replicate (length sig - 20) (CHR ''0''))))"

text \<open>
  \<open>parseInt(s, 10)\<close>: white space and a sign are skipped, the digits that follow are
  read, and a text without a digit there is not-a-number (\<open>None\<close>).
\<close>

definition parseInt10 :: "host \<Rightarrow> string \<Rightarrow> int option" where
  "parseInt10 h s =
     (let t = dropWhile is_space s;
          neg = startsWith t ''-'';
          u = (if startsWith t ''-'' \<or> startsWith t ''+'' then drop 1 t else t);
          ds = takeWhile is_digit u
      in if ds = [] then None
         else Some (if neg then - int (number_of_digits h ds) else int (number_of_digits h ds)))"

text \<open>\<open>parseInt(f.split("-").pop() || "0", 10)\<close>.\<close>

definition backup_time :: "host \<Rightarrow> string \<Rightarrow> int option" where
  "backup_time h f =
     parseInt10 h (case pop (split_on (CHR ''-'') f) of
                     None \<Rightarrow> ''0''
                   | Some t \<Rightarrow> if t = [] then ''0'' else t)"

definition base_name :: "string \<Rightarrow> string" where
  "base_name memoryPath =
     (case pop (split_on (CHR ''/'') memoryPath) of
        None \<Rightarrow> ''mind.mv2''
      | Some b \<Rightarrow> if b = [] then ''mind.mv2'' else b)"

text \<open>
  \<open>.sort((a, b) => b.time - a.time)\<close> on the accepted names: a stable sort by
  descending time when every time is a number; the host's order when one is not.
\<close>

definition sort_backups :: "host \<Rightarrow> string list \<Rightarrow> string list" where
  "sort_backups h names =
     (if list_all (\<lambda>f. backup_time h f \<noteq> None) names
      then sort_key (\<lambda>f. case backup_time h f of None \<Rightarrow> 0 | Some t \<Rightarrow> - t) names
      else sort_inconsistent h names)"

definition try_unlink :: "world \<Rightarrow> string \<Rightarrow> world" where
  "try_unlink w p = (case unlinkSync w p of None \<Rightarrow> w | Some w' \<Rightarrow> w')"

text \<open>
  \<open>pruneBackups\<close>: when the pattern cannot be built or the directory cannot be
  listed, the outer \<open>catch\<close> leaves everything as it is.
\<close>

definition pruneBackups :: "host \<Rightarrow> string \<Rightarrow> nat \<Rightarrow> world \<Rightarrow> world" where
  "pruneBackups h memoryPath keepCount w =
     (case RegExp_new h (backupSource (base_name memoryPath)) of
        None \<Rightarrow> w
      | Some test \<Rightarrow>
          (case readdirSync w (path_dirname memoryPath) of
             None \<Rightarrow> w
           | Some entries \<Rightarrow>
               foldl (\<lambda>w' f. try_unlink w' (path_resolve (path_dirname memoryPath) f)) w
                 (drop keepCount (sort_backups h (filter test entries)))))"



text \<open>
  The digits in the name of a backup, and the timestamp embedded there: the number
  the digits write.
\<close>

definition backup_digits :: "string \<Rightarrow> string \<Rightarrow> string" where
  "backup_digits baseName f = drop (length (baseName @ ''.backup-'')) f"


text \<open>The test \<open>is_backup_name\<close>, as a computation.\<close>

definition backup_name_test :: "string \<Rightarrow> string \<Rightarrow> bool" where
  "backup_name_test baseName f =
     (startsWith f (baseName @ ''.backup-'')
      \<and> (let ds = backup_digits baseName f in ds \<noteq> [] \<and> list_all is_digit ds))"

definition is_corruption :: "string \<Rightarrow> bool" where
  "is_corruption msg = list_ex (\<lambda>p. includes_str msg p) CORRUPTION_PATTERNS"

definition createStore :: "'h engine \<Rightarrow> string \<Rightarrow> world \<Rightarrow> (error + 'h) \<times> world" where
  "createStore eng memoryPath w =
     (case sdk_create eng memoryPath of
        Inl msg \<Rightarrow> (Inl (EngineError msg), w)
      | Inr (h, c) \<Rightarrow> (Inr h, fs_write w memoryPath c))"

text \<open>The function \<open>Mind.open\<close> runs under the lock; \<open>now\<close> is \<open>Date.now()\<close>.\<close>

definition openStore :: "'h engine \<Rightarrow> string \<Rightarrow> nat \<Rightarrow> world \<Rightarrow> (error + 'h) \<times> world" where
  "openStore eng memoryPath now w =
     (case fs_read w memoryPath of
        None \<Rightarrow> createStore eng memoryPath w
      | Some content \<Rightarrow>
          if length content > MAX_FILE_SIZE_MB * (1024 * 1024)
          then (let backupPath = memoryPath @ ''.backup-'' @ digits_of now;
                    w1 = (case renameSync w memoryPath backupPath of
                            None \<Rightarrow> w
                          | Some w' \<Rightarrow> w')
                in createStore eng memoryPath w1)
          else (case sdk_use eng memoryPath (Some content) of
                  Inr h \<Rightarrow> (Inr h, w)
                | Inl msg \<Rightarrow>
                    if is_corruption msg
                    then (let backupPath = memoryPath @ ''.backup-'' @ digits_of now;
                              w1 = (case renameSync w memoryPath backupPath of
                                      None \<Rightarrow> try_unlink w memoryPath
                                    | Some w' \<Rightarrow> w')
                          in createStore eng memoryPath w1)
                    else (Inl (EngineError msg), w)))"

text \<open>
  \<open>Mind.open\<close>, with the merged configuration; \<open>sid\<close> is the \<open>generateId()\<close> and
  \<open>startTime\<close> the \<open>Date.now()\<close> of the constructor; \<open>hst\<close> is the host's
  library as \<open>pruneBackups\<close> uses it.
\<close>

definition Mind_open ::
  "host \<Rightarrow> 'h engine \<Rightarrow> string \<Rightarrow> MindConfig \<Rightarrow> nat \<Rightarrow> string \<Rightarrow> nat \<Rightarrow> world
     \<Rightarrow> (error + 'h Mind) \<times> world" where
  "Mind_open hst eng directory config now sid startTime w =
     (let memoryPath = path_resolve directory (cfg_memoryPath config)
      in case withMindLock memoryPath (openStore eng memoryPath now) w of
           (Inl e, w') \<Rightarrow> (Inl e, w')
         | (Inr h, w') \<Rightarrow>
             (Inr \<lparr>m_memvid = h, m_config = config, m_sessionId = sid,
                   m_directory = directory, m_initialized = True,
                   m_sessionStartTime = startTime\<rparr>,
              pruneBackups hst memoryPath 3 w'))"

definition getMemoryPath :: "'h Mind \<Rightarrow> string" where
  "getMemoryPath mind = path_resolve (m_directory mind) (cfg_memoryPath (m_config mind))"

text \<open>Object spread \<open>{...a, ...b}\<close>, and the order in which the host lists the result.\<close>

definition obj_spread :: "jsobject \<Rightarrow> jsobject \<Rightarrow> jsobject" where
  "obj_spread a b = object_entries (foldl (\<lambda>acc (k, v). put_entry acc k v) a b)"

record RememberInput =
  in_type :: ObservationType
  in_summary :: string
  in_content :: string
  in_tool :: "string option"
  in_metadata :: "jsobject option"

definition VALID_SOURCES :: "string list" where
  "VALID_SOURCES = [''opencode'', ''claude-code'']"

definition effectiveSource :: "RememberInput \<Rightarrow> string" where
  "effectiveSource input =
     (let rawSource = get_prop (in_metadata input) ''source''
      in case rawSource of
           Some (JStr s) \<Rightarrow> if truthy rawSource \<and> s \<in> set VALID_SOURCES then s else ''opencode''
         | _ \<Rightarrow> ''opencode'')"

definition effectiveSessionId :: "'h Mind \<Rightarrow> RememberInput \<Rightarrow> jsval" where
  "effectiveSessionId mind input =
     (let given = get_prop (in_metadata input) ''sessionId''
      in case given of
           Some v \<Rightarrow> if truthy given then v else JStr (m_sessionId mind)
         | None \<Rightarrow> JStr (m_sessionId mind))"

text \<open>
  The record \<open>remember\<close> hands to \<open>put\<close>; \<open>newId\<close> is the \<open>generateId()\<close> and
  \<open>now\<close> the \<open>Date.now()\<close> of the observation.
\<close>

definition rememberFrame :: "'h Mind \<Rightarrow> RememberInput \<Rightarrow> string \<Rightarrow> nat \<Rightarrow> frame" where
  "rememberFrame mind input newId now =
     (let sid = effectiveSessionId mind input;
          src = effectiveSource input;
          tool = (case in_tool input of None \<Rightarrow> JUndefined | Some t \<Rightarrow> JStr t);
          obs_metadata =
            obj_spread (obj_spread [] (case in_metadata input of None \<Rightarrow> [] | Some m \<Rightarrow> m))
              [(''sessionId'', sid), (''source'', JStr src)]
      in \<lparr>f_title = ''['' @ in_type input @ ''] '' @ in_summary input,
          f_label = in_type input,
          f_text = in_content input,
          f_metadata =
            obj_spread
              [(''observationId'', JStr newId), (''timestamp'', JNum (int now)),
               (''tool'', tool), (''sessionId'', sid), (''source'', JStr src)]
              obs_metadata,
          f_tags = filter (\<lambda>t. t \<noteq> [])
                     (in_type input # (case in_tool input of None \<Rightarrow> [] | Some t \<Rightarrow> [t]))\<rparr>)"

definition remember ::
  "'h engine \<Rightarrow> 'h Mind \<Rightarrow> RememberInput \<Rightarrow> string \<Rightarrow> nat \<Rightarrow> world \<Rightarrow> (error + string) \<times> world" where
  "remember eng mind input newId now w =
     withMindLock (getMemoryPath mind)
       (\<lambda>w1. case sdk_use eng (getMemoryPath mind) (fs_read w1 (getMemoryPath mind)) of
                Inl msg \<Rightarrow> (Inl (EngineError msg), w1)
              | Inr freshMemvid \<Rightarrow>
                  (case sdk_put eng freshMemvid (rememberFrame mind input newId now) of
                     Inl msg \<Rightarrow> (Inl (EngineError msg), w1)
                   | Inr (frameId, c) \<Rightarrow> (Inr frameId, fs_write w1 (getMemoryPath mind) c)))
       w"

section \<open>Sample states\<close>

text \<open>
  A stand-in for the engine: a store is a text that starts with \<open>MV2\<close>; any other
  text fails to open, with a message that names a deserialization error or, for the
  text \<open>unreadable\<close>, one that names none of the corruption patterns.
\<close>

definition demo_engine :: "string engine" where
  "demo_engine =
     \<lparr>sdk_use = (\<lambda>p c. case c of
                     None \<Rightarrow> Inl ''No such file''
                   | Some t \<Rightarrow> if startsWith t ''MV2'' then Inr t
                              else if t = ''unreadable'' then Inl ''Permission denied''
                              else Inl ''Deserialization failed: bad header''),
      sdk_create = (\<lambda>p. Inr (''MV2'', ''MV2'')),
      sdk_put = (\<lambda>h f. Inr (digits_of (length h), h @ f_text f))\<rparr>"

definition w_empty :: world where
  "w_empty = \<lparr>files = [], held = [], lock_log = [], rename_denied = [], unlink_denied = [],
               readdir_denied = []\<rparr>"

text \<open>
  A stand-in for the host on the one pattern the sample runs build, the source
  \<open>^mind\.mv2\.backup-\d+$\<close>: it accepts the names \<open>mind.mv2.backup-\<close> followed by
  one digit or more.
\<close>

definition sample_host :: host where
  "sample_host =
     \<lparr>RegExp_new = (\<lambda>src. if src = backupSource ''mind.mv2''
                            then Some (backup_name_test ''mind.mv2'') else None),
      parseInt_exact = True,
      sort_inconsistent = (\<lambda>names. names)\<rparr>"

definition w_corrupt :: world where
  "w_corrupt = w_empty\<lparr>files := [(''/proj/.claude/mind.mv2'', ''garbage'')]\<rparr>"

definition w_unreadable :: world where
  "w_unreadable = w_empty\<lparr>files := [(''/proj/.claude/mind.mv2'', ''unreadable'')]\<rparr>"



definition demo_mind :: "string Mind" where
  "demo_mind =
     \<lparr>m_memvid = ''MV2'', m_config = DEFAULT_CONFIG, m_sessionId = ''0123456789abcdef'',
      m_directory = ''/proj'', m_initialized = True, m_sessionStartTime = 8\<rparr>"

definition demo_input :: "jsobject option \<Rightarrow> RememberInput" where
  "demo_input md =
     \<lparr>in_type = ''discovery'', in_summary = ''Read file.ts'', in_content = ''file contents'',
      in_tool = Some ''read'', in_metadata = md\<rparr>"

section \<open>Properties of the classification\<close>

lemma startsWith_iff: "startsWith s p \<longleftrightarrow> (\<exists>post. s = p @ post)"
  by (induction s p rule: startsWith.induct) auto

lemma includes_str_iff: "includes_str s p \<longleftrightarrow> (\<exists>pre post. s = pre @ p @ post)"
proof (induction s)
  case Nil
  then show ?case by auto
next
  case (Cons c cs)
  show ?case
  proof
    assume "includes_str (c # cs) p"
    then consider "startsWith (c # cs) p" | "includes_str cs p" by auto
    then show "\<exists>pre post. c # cs = pre @ p @ post"
    proof cases
      case 1
      then obtain post where "c # cs = p @ post" by (auto simp: startsWith_iff)
      then have "c # cs = [] @ p @ post" by simp
      then show ?thesis by blast
    next
      case 2
      then obtain pre post where "cs = pre @ p @ post" using Cons.IH by auto
      then have "c # cs = (c # pre) @ p @ post" by simp
      then show ?thesis by blast
    qed
  next
    assume "\<exists>pre post. c # cs = pre @ p @ post"
    then obtain pre post where e: "c # cs = pre @ p @ post" by auto
    show "includes_str (c # cs) p"
    proof (cases pre)
      case Nil
      with e have "startsWith (c # cs) p" by (auto simp: startsWith_iff)
      then show ?thesis by simp
    next
      case (Cons a pre')
      with e have "cs = pre' @ p @ post" by simp
      then have "includes_str cs p" using Cons.IH by auto
      then show ?thesis by simp
    qed
  qed
qed

lemma contains_ci_iff: "contains_ci s w \<longleftrightarrow> includes_str (toLowerCase s) w"
proof
  assume "contains_ci s w"
  then obtain pre mid post where "s = pre @ mid @ post" "toLowerCase mid = w"
    by (auto simp: contains_ci_def)
  then have "toLowerCase s = toLowerCase pre @ w @ toLowerCase post"
    by (simp add: toLowerCase_def)
  then show "includes_str (toLowerCase s) w" unfolding includes_str_iff by blast
next
  assume "includes_str (toLowerCase s) w"
  then obtain a b where "map toLowerChar s = a @ w @ b"
    by (auto simp: includes_str_iff toLowerCase_def)
  then obtain pre r where 1: "s = pre @ r" "map toLowerChar r = w @ b"
    by (metis map_eq_append_conv)
  then obtain mid post where 2: "r = mid @ post" "map toLowerChar mid = w"
    by (metis map_eq_append_conv)
  from 1 2 have "s = pre @ mid @ post" "map toLowerChar mid = w" by simp_all
  then show "contains_ci s w" by (auto simp: contains_ci_def toLowerCase_def)
qed

lemma classify_in_types: "classifyObservationType t out \<in> set ObservationTypes"
  by (simp add: classifyObservationType_def ObservationTypes_def Let_def)

text \<open>
  Claim C10. For every tool name and output text, \<open>classifyObservationType\<close> returns
  one of the ten category tags, and its rules apply in a fixed order: an output that
  contains "error", "failed" or "exception" (in any case) is a "problem" whatever the
  tool; otherwise one that contains "success", "passed" or "completed" is a "success";
  otherwise one that contains "warning" or "deprecated" is a "warning"; otherwise the
  tool decides (read, glob, grep: "discovery"; edit, update: "bugfix" when the output
  contains "fix" or "bug" and "refactor" when not; write: "feature"), and "discovery"
  is the default.
\<close>

theorem classifyObservationType_priority:
  "(let err = (contains_ci out ''error'' \<or> contains_ci out ''failed''
                \<or> contains_ci out ''exception'');
        suc = (contains_ci out ''success'' \<or> contains_ci out ''passed''
                \<or> contains_ci out ''completed'');
        wrn = (contains_ci out ''warning'' \<or> contains_ci out ''deprecated'');
        tool = toLowerCase toolName;
        res = classifyObservationType toolName out
    in res \<in> set ObservationTypes
       \<and> (err \<longrightarrow> res = ''problem'')
       \<and> (\<not> err \<and> suc \<longrightarrow> res = ''success'')
       \<and> (\<not> err \<and> \<not> suc \<and> wrn \<longrightarrow> res = ''warning'')
       \<and> (\<not> err \<and> \<not> suc \<and> \<not> wrn \<longrightarrow>
            res =
              (if tool \<in> {''read'', ''glob'', ''grep''} then ''discovery''
               else if tool \<in> {''edit'', ''update''}
               then (if contains_ci out ''fix'' \<or> contains_ci out ''bug''
                     then ''bugfix'' else ''refactor'')
               else if tool = ''write'' then ''feature''
               else ''discovery'')))"
  unfolding contains_ci_iff
  by (simp add: classifyObservationType_def ObservationTypes_def Let_def)

theorem classifyObservationType_priority_witness:
  "classifyObservationType ''Bash'' ''Build FAILED, all tests passed'' = ''problem''
   \<and> classifyObservationType ''Edit'' ''Deprecated call'' = ''warning''
   \<and> classifyObservationType ''Edit'' ''Fix applied'' = ''bugfix''"
proof -
  have a: "contains_ci ''Build FAILED, all tests passed'' ''failed''"
    unfolding contains_ci_iff by code_simp
  have b: "\<not> contains_ci ''Deprecated call'' ''error''"
    "\<not> contains_ci ''Deprecated call'' ''failed''"
    "\<not> contains_ci ''Deprecated call'' ''exception''"
    "\<not> contains_ci ''Deprecated call'' ''success''"
    "\<not> contains_ci ''Deprecated call'' ''passed''"
    "\<not> contains_ci ''Deprecated call'' ''completed''"
    "contains_ci ''Deprecated call'' ''deprecated''"
    unfolding contains_ci_iff by code_simp+
  have c: "\<not> contains_ci ''Fix applied'' ''error''"
    "\<not> contains_ci ''Fix applied'' ''failed''"
    "\<not> contains_ci ''Fix applied'' ''exception''"
    "\<not> contains_ci ''Fix applied'' ''success''"
    "\<not> contains_ci ''Fix applied'' ''passed''"
    "\<not> contains_ci ''Fix applied'' ''completed''"
    "\<not> contains_ci ''Fix applied'' ''warning''"
    "\<not> contains_ci ''Fix applied'' ''deprecated''"
    "contains_ci ''Fix applied'' ''fix''"
    "toLowerCase ''Edit'' = ''edit''"
    unfolding contains_ci_iff by code_simp+
  show ?thesis
    using classifyObservationType_priority
            [where toolName = "''Bash''" and out = "''Build FAILED, all tests passed''"]
      classifyObservationType_priority
            [where toolName = "''Edit''" and out = "''Deprecated call''"]
      classifyObservationType_priority
            [where toolName = "''Edit''" and out = "''Fix applied''"]
    by (simp add: Let_def a b c)
qed

section \<open>Properties of the compressor\<close>

lemma truncateToTarget_length:
  "length (truncateToTarget c) = (if length c \<le> 2000 then length c else 2016)"
  by (simp add: truncateToTarget_def TARGET_COMPRESSED_SIZE_def nl_def)

lemma split_on_absent: "sep \<notin> set s \<Longrightarrow> split_on sep s = [s]"
  by (induction s) auto

lemma compressGeneric_one_line: "CHR 0x0A \<notin> set s \<Longrightarrow> compressGeneric s = s"
  by (simp add: compressGeneric_def split_lines_def split_on_absent)

lemma toLowerCase_task: "toLowerCase ''task'' = ''task''"
  by code_simp

lemma compress_long_line:
  "compressToolOutput ''task'' None (replicate 3000 (CHR ''a'')) True =
     Inr \<lparr>compressed = replicate 2000 (CHR ''a'') @ nl @ ''... (truncated)'',
          wasCompressed = True, originalSize = 3000\<rparr>"
proof -
  have "compressStrategy ''task'' None (replicate 3000 (CHR ''a'')) = Inr (replicate 3000 (CHR ''a''))"
    by (simp add: compressStrategy_def toLowerCase_task compressGeneric_one_line)
  then show ?thesis
    by (simp add: compressToolOutput_def COMPRESSION_THRESHOLD_def truncateToTarget_def
        TARGET_COMPRESSED_SIZE_def)
qed

lemma js_toString_error: "js_toString v = Inl e \<Longrightarrow> e = TypeError"
  by (cases v) (auto simp: Let_def split: if_splits)

lemma group_dirs_error: "group_dirs ls dirs = Inl e \<Longrightarrow> e = TypeError"
  by (induction ls arbitrary: dirs) (auto simp: Let_def split: if_splits)

lemma compressFileRead_error: "compressFileRead i out = Inl e \<Longrightarrow> e = TypeError"
  by (auto simp: compressFileRead_def Let_def dest: js_toString_error
      split: option.splits if_splits sum.splits)

lemma compressBashOutput_error: "compressBashOutput i out = Inl e \<Longrightarrow> e = TypeError"
  by (auto simp: compressBashOutput_def Let_def
      split: option.splits if_splits sum.splits jsval.splits)

lemma compressGrepOutput_error: "compressGrepOutput i out = Inl e \<Longrightarrow> e = TypeError"
  by (auto simp: compressGrepOutput_def Let_def dest: js_toString_error
      split: option.splits if_splits sum.splits)

lemma compressGlobOutput_error: "compressGlobOutput i out = Inl e \<Longrightarrow> e = TypeError"
  by (auto simp: compressGlobOutput_def Let_def dest: js_toString_error group_dirs_error
      split: option.splits if_splits sum.splits)

lemma compressEditOutput_error: "compressEditOutput i out = Inl e \<Longrightarrow> e = TypeError"
  by (auto simp: compressEditOutput_def Let_def
      split: option.splits if_splits sum.splits jsval.splits)

lemma compressStrategy_error: "compressStrategy t i out = Inl e \<Longrightarrow> e = TypeError"
  by (auto simp: compressStrategy_def Let_def
      dest: compressFileRead_error compressBashOutput_error compressGrepOutput_error
        compressGlobOutput_error compressEditOutput_error
      split: if_splits)

text \<open>
  Claim C3. For every tool name, input descriptor and output text: when compression
  is disabled, or the text is shorter than the threshold of 3000 characters,
  \<open>compressToolOutput\<close> returns the text unchanged, with \<open>wasCompressed = false\<close> and
  \<open>originalSize\<close> the length of the text. Disabling compression on an oversized
  text is a case of it.
\<close>

theorem compressToolOutput_unchanged:
  "\<not> autoCompress \<or> length out < 3000 \<Longrightarrow>
   compressToolOutput toolName toolInput out autoCompress =
     Inr \<lparr>compressed = out, wasCompressed = False, originalSize = length out\<rparr>"
  by (auto simp: compressToolOutput_def COMPRESSION_THRESHOLD_def)

theorem compressToolOutput_unchanged_witness:
  "compressToolOutput ''read'' None (replicate 5000 (CHR ''x'')) False =
     Inr \<lparr>compressed = replicate 5000 (CHR ''x''), wasCompressed = False, originalSize = 5000\<rparr>
   \<and> compressToolOutput ''bash'' (Some [(''command'', JStr ''ls'')]) ''a.txt'' True =
     Inr \<lparr>compressed = ''a.txt'', wasCompressed = False, originalSize = 5\<rparr>"
  using compressToolOutput_unchanged
          [where autoCompress = False and out = "replicate 5000 (CHR ''x'')"
             and toolName = "''read''" and toolInput = None]
        compressToolOutput_unchanged
          [where autoCompress = True and out = "''a.txt''"
             and toolName = "''bash''" and toolInput = "Some [(''command'', JStr ''ls'')]"]
  by simp

text \<open>
  Claim C9. Whenever \<open>compressToolOutput\<close> returns \<open>wasCompressed = true\<close>, the
  returned text has at most 2016 characters: the target of 2000 and the marker of 16
  characters, a line break and \<open>... (truncated)\<close>. The marker is appended exactly
  when the text the strategy produced is longer than 2000 characters; a shorter one
  is returned as it is.
\<close>

theorem compressToolOutput_marker_bound:
  "compressToolOutput toolName toolInput out autoCompress = Inr r \<Longrightarrow> wasCompressed r \<Longrightarrow>
   length (compressed r) \<le> 2016
   \<and> length (nl @ ''... (truncated)'') = 16
   \<and> (\<exists>c. compressStrategy toolName toolInput out = Inr c
          \<and> (if 2000 < length c
              then compressed r = take 2000 c @ nl @ ''... (truncated)''
              else compressed r = c))"
  by (auto simp: compressToolOutput_def truncateToTarget_def TARGET_COMPRESSED_SIZE_def nl_def
      Let_def split: if_splits sum.splits)

theorem compressToolOutput_marker_bound_witness:
  "length (replicate 2000 (CHR ''a'') @ nl @ ''... (truncated)'') \<le> 2016
   \<and> (\<exists>c. compressStrategy ''task'' None (replicate 3000 (CHR ''a'')) = Inr c
          \<and> (if 2000 < length c
              then replicate 2000 (CHR ''a'') @ nl @ ''... (truncated)''
                   = take 2000 c @ nl @ ''... (truncated)''
              else replicate 2000 (CHR ''a'') @ nl @ ''... (truncated)'' = c))"
proof -
  have w: "wasCompressed \<lparr>compressed = replicate 2000 (CHR ''a'') @ nl @ ''... (truncated)'',
             wasCompressed = True, originalSize = 3000\<rparr>"
    by simp
  have h: "length (replicate 2000 (CHR ''a'') @ nl @ ''... (truncated)'') \<le> 2016
     \<and> length (nl @ ''... (truncated)'') = 16
     \<and> (\<exists>c. compressStrategy ''task'' None (replicate 3000 (CHR ''a'')) = Inr c
          \<and> (if 2000 < length c
              then replicate 2000 (CHR ''a'') @ nl @ ''... (truncated)''
                   = take 2000 c @ nl @ ''... (truncated)''
              else replicate 2000 (CHR ''a'') @ nl @ ''... (truncated)'' = c))"
    using compressToolOutput_marker_bound [OF compress_long_line w]
    by (simp only: CompressionResult.select_convs)
  then show ?thesis by blast
qed

text \<open>
  Claim C1, as the specification states it: a text at or above the threshold, with
  compression enabled, comes back with at most 2000 characters. It fails on a single
  line of 3000 characters handed to a tool without a strategy of its own: the generic
  strategy keeps a text of at most 30 lines whole, and the truncation keeps its first
  2000 characters and appends the marker, 2016 characters in all.
\<close>

theorem compressToolOutput_over_target:
  "compressToolOutput ''task'' None (replicate 3000 (CHR ''a'')) True =
     Inr \<lparr>compressed = replicate 2000 (CHR ''a'') @ nl @ ''... (truncated)'',
          wasCompressed = True, originalSize = 3000\<rparr>
   \<and> length (replicate 2000 (CHR ''a'') @ nl @ ''... (truncated)'') = 2016
   \<and> \<not> length (replicate 2000 (CHR ''a'') @ nl @ ''... (truncated)'') \<le> TARGET_COMPRESSED_SIZE"
  by (simp add: compress_long_line TARGET_COMPRESSED_SIZE_def nl_def)

text \<open>
  Claim C1, amended. For every tool name, input descriptor and output text of at
  least 3000 characters, with compression enabled: the call returns a result unless
  its strategy raises a \<open>TypeError\<close>, and a result it returns has
  \<open>wasCompressed = true\<close>, \<open>originalSize\<close> the length of the text, and a compressed
  text of at most 2016 characters, the target and the marker.
\<close>

theorem compressToolOutput_compressed:
  "3000 \<le> length out \<Longrightarrow>
   (compressToolOutput toolName toolInput out True = Inl TypeError
      \<and> compressStrategy toolName toolInput out = Inl TypeError)
   \<or> (\<exists>r. compressToolOutput toolName toolInput out True = Inr r
          \<and> wasCompressed r \<and> originalSize r = length out
          \<and> length (compressed r) \<le> TARGET_COMPRESSED_SIZE + 16)"
proof -
  assume big: "3000 \<le> length out"
  show ?thesis
  proof (cases "compressStrategy toolName toolInput out")
    case (Inl e)
    then have "e = TypeError" by (rule compressStrategy_error)
    with Inl big show ?thesis
      by (simp add: compressToolOutput_def COMPRESSION_THRESHOLD_def Let_def)
  next
    case (Inr c)
    with big show ?thesis
      by (simp add: compressToolOutput_def COMPRESSION_THRESHOLD_def truncateToTarget_length
          TARGET_COMPRESSED_SIZE_def Let_def)
  qed
qed

theorem compressToolOutput_compressed_witness:
  "\<exists>r. compressToolOutput ''task'' None (replicate 3000 (CHR ''a'')) True = Inr r
        \<and> wasCompressed r \<and> originalSize r = 3000
        \<and> length (compressed r) \<le> TARGET_COMPRESSED_SIZE + 16"
  using compressToolOutput_compressed
          [where out = "replicate 3000 (CHR ''a'')" and toolName = "''task''"
             and toolInput = None]
  by (simp add: compress_long_line)

section \<open>Properties of the lock and of the store\<close>

lemma map_of_put_entry: "map_of (put_entry xs k v) k' = (if k' = k then Some v else map_of xs k')"
  by (induction xs k v rule: put_entry.induct) auto

lemma map_of_filter_neq:
  "map_of (filter (\<lambda>(k, c). k \<noteq> p) xs) q = (if q = p then None else map_of xs q)"
  by (induction xs) auto

lemma fs_read_write [simp]: "fs_read (fs_write w p c) q = (if q = p then Some c else fs_read w q)"
  by (simp add: fs_read_def fs_write_def map_of_put_entry)

lemma fs_read_remove [simp]: "fs_read (fs_remove w p) q = (if q = p then None else fs_read w q)"
  by (simp add: fs_read_def fs_remove_def map_of_filter_neq)

lemma fs_read_release [simp]: "fs_read (lockfile_release l w) q = fs_read w q"
  by (simp add: fs_read_def lockfile_release_def)

text \<open>
  Claim C4. For every resource path and every unit of work: \<open>withMindLock\<close> takes
  the lock on \<open><path>.lock\<close> before it runs the unit of work, and gives it back
  exactly once after it, whether the unit of work returns a value (which
  \<open>withMindLock\<close> returns) or throws (the exception is the outcome, after the
  release). The unit of work runs in a state where the lock is held, and the history
  of the lock is the acquisition, what the unit of work did, then one release. When
  the lock cannot be taken, the unit of work does not run.
\<close>

theorem withMindLock_discipline:
  "(let l = memoryPath @ ''.lock'';
        w1 = (if existsSync w l then w else fs_write w l []);
        w2 = w1\<lparr>held := l # held w1, lock_log := lock_log w1 @ [Acquired l]\<rparr>;
        res = withMindLock memoryPath fn w
    in (l \<in> set (held w) \<longrightarrow> res = (Inl ELOCKED, w1))
     \<and> (l \<notin> set (held w) \<longrightarrow>
          fst res = fst (fn w2)
        \<and> l \<in> set (held w2)
        \<and> lock_log w2 = lock_log w @ [Acquired l]
        \<and> lock_log (snd res) = lock_log (snd (fn w2)) @ [Released l]
        \<and> l \<notin> set (held (snd res))
        \<and> files (snd res) = files (snd (fn w2))
        \<and> (\<forall>es. lock_log (snd (fn w2)) = lock_log w2 @ es \<longrightarrow>
                  lock_log (snd res) = lock_log w @ Acquired l # es @ [Released l])))"
  by (auto simp: withMindLock_def Let_def lockfile_lock_def lockfile_release_def fs_write_def
      existsSync_def split: prod.splits)


theorem withMindLock_discipline_witness:
  "withMindLock ''/proj/.claude/mind.mv2'' (\<lambda>u. (Inr (held u), u)) w_empty =
     (Inr [''/proj/.claude/mind.mv2.lock''],
      w_empty\<lparr>files := [(''/proj/.claude/mind.mv2.lock'', [])],
              lock_log := [Acquired ''/proj/.claude/mind.mv2.lock'',
                           Released ''/proj/.claude/mind.mv2.lock'']\<rparr>)
   \<and> fst (withMindLock ''/proj/.claude/mind.mv2''
            (\<lambda>u. (Inl TypeError :: error + nat, u)) w_empty) = Inl TypeError
   \<and> lock_log (snd (withMindLock ''/proj/.claude/mind.mv2''
            (\<lambda>u. (Inl TypeError :: error + nat, u)) w_empty))
       = [Acquired ''/proj/.claude/mind.mv2.lock'', Released ''/proj/.claude/mind.mv2.lock'']
   \<and> withMindLock ''/proj/.claude/mind.mv2'' (\<lambda>u. (Inr (held u), u))
         (w_empty\<lparr>held := [''/proj/.claude/mind.mv2.lock'']\<rparr>)
       = (Inl ELOCKED, w_empty\<lparr>files := [(''/proj/.claude/mind.mv2.lock'', [])],
                               held := [''/proj/.claude/mind.mv2.lock'']\<rparr>)"
proof -
  have a: "lock_log (snd (withMindLock ''/proj/.claude/mind.mv2''
            (\<lambda>u. (Inl TypeError :: error + nat, u)) w_empty))
       = [Acquired ''/proj/.claude/mind.mv2.lock'', Released ''/proj/.claude/mind.mv2.lock'']"
       "fst (withMindLock ''/proj/.claude/mind.mv2''
            (\<lambda>u. (Inl TypeError :: error + nat, u)) w_empty) = Inl TypeError"
    using withMindLock_discipline
            [where memoryPath = "''/proj/.claude/mind.mv2''" and w = w_empty
               and fn = "\<lambda>u. (Inl TypeError :: error + nat, u)"]
    by (simp_all add: Let_def w_empty_def existsSync_def fs_read_def fs_write_def)
  have b: "withMindLock ''/proj/.claude/mind.mv2'' (\<lambda>u. (Inr (held u), u))
         (w_empty\<lparr>held := [''/proj/.claude/mind.mv2.lock'']\<rparr>)
       = (Inl ELOCKED, w_empty\<lparr>files := [(''/proj/.claude/mind.mv2.lock'', [])],
                               held := [''/proj/.claude/mind.mv2.lock'']\<rparr>)"
    using withMindLock_discipline
            [where memoryPath = "''/proj/.claude/mind.mv2''"
               and w = "w_empty\<lparr>held := [''/proj/.claude/mind.mv2.lock'']\<rparr>"
               and fn = "\<lambda>u. (Inr (held u), u)"]
    by (simp add: Let_def w_empty_def existsSync_def fs_read_def fs_write_def)
  have c: "withMindLock ''/proj/.claude/mind.mv2'' (\<lambda>u. (Inr (held u), u)) w_empty =
     (Inr [''/proj/.claude/mind.mv2.lock''],
      w_empty\<lparr>files := [(''/proj/.claude/mind.mv2.lock'', [])],
              lock_log := [Acquired ''/proj/.claude/mind.mv2.lock'',
                           Released ''/proj/.claude/mind.mv2.lock'']\<rparr>)"
    by (simp add: withMindLock_def Let_def w_empty_def existsSync_def fs_read_def fs_write_def
        lockfile_lock_def lockfile_release_def)
  from a b c show ?thesis by simp
qed

lemma fs_read_held [simp]: "fs_read (w\<lparr>held := h, lock_log := g\<rparr>) q = fs_read w q"
  by (simp add: fs_read_def)

lemma openStore_corrupt:
  assumes "fs_read v p = Some content" "length content \<le> 104857600"
      and "sdk_use eng p (Some content) = Inl msg" "is_corruption msg"
  shows "openStore eng p now v =
           createStore eng p
             (if p \<notin> set (rename_denied v)
              then fs_write (fs_remove v p) (p @ ''.backup-'' @ digits_of now) content
              else if p \<notin> set (unlink_denied v) then fs_remove v p
              else v)"
  using assms
  by (simp add: openStore_def MAX_FILE_SIZE_MB_def renameSync_def unlinkSync_def
      try_unlink_def Let_def)

lemma openStore_unrecognised:
  assumes "fs_read v p = Some content" "length content \<le> 104857600"
      and "sdk_use eng p (Some content) = Inl msg" "\<not> is_corruption msg"
  shows "openStore eng p now v = (Inl (EngineError msg), v)"
  using assms by (simp add: openStore_def MAX_FILE_SIZE_MB_def)

lemma withMindLock_free:
  assumes "p @ ''.lock'' \<notin> set (held w)"
  shows "withMindLock p fn w =
           (let l = p @ ''.lock'';
                w1 = (if existsSync w l then w else fs_write w l []);
                w2 = w1\<lparr>held := l # held w1, lock_log := lock_log w1 @ [Acquired l]\<rparr>
            in (fst (fn w2), lockfile_release l (snd (fn w2))))"
  using assms
  by (simp add: withMindLock_def Let_def lockfile_lock_def fs_write_def split: prod.splits)

text \<open>
  Claim C5. \<open>Mind.open\<close> finds the store file (not larger than the ceiling), the
  lock is free, and the engine's open call fails with a message. If the message
  contains none of the corruption patterns, the failure is the outcome of
  \<open>Mind.open\<close>, and no file is touched. If it contains one, the file is renamed to
  \<open><path>.backup-<now>\<close>, or deleted when the rename fails; then the
  engine creates a fresh store, and \<open>Mind.open\<close> returns a \<open>Mind\<close> on its handle
  (when the creation itself fails, that failure is the outcome).
\<close>

theorem Mind_open_use_failure:
  assumes mp: "memoryPath = path_resolve directory (cfg_memoryPath config)"
      and free: "memoryPath @ ''.lock'' \<notin> set (held w)"
      and ex: "fs_read w memoryPath = Some content"
      and small: "length content \<le> 104857600"
      and fails: "sdk_use eng memoryPath (Some content) = Inl msg"
  shows "(let l = memoryPath @ ''.lock'';
              backupPath = memoryPath @ ''.backup-'' @ digits_of now;
              w1 = (if existsSync w l then w else fs_write w l []);
              w2 = w1\<lparr>held := l # held w1, lock_log := lock_log w1 @ [Acquired l]\<rparr>;
              w3 = (if memoryPath \<notin> set (rename_denied w)
                    then fs_write (fs_remove w2 memoryPath) backupPath content
                    else if memoryPath \<notin> set (unlink_denied w) then fs_remove w2 memoryPath
                    else w2);
              res = Mind_open hst eng directory config now sid startTime w
          in (\<not> is_corruption msg \<longrightarrow>
                res = (Inl (EngineError msg), lockfile_release l w2))
           \<and> (is_corruption msg \<longrightarrow>
                (memoryPath \<notin> set (rename_denied w) \<longrightarrow>
                   fs_read w3 backupPath = Some content \<and> fs_read w3 memoryPath = None)
              \<and> (memoryPath \<in> set (rename_denied w) \<and> memoryPath \<notin> set (unlink_denied w) \<longrightarrow>
                   fs_read w3 backupPath = fs_read w backupPath \<and> fs_read w3 memoryPath = None)
              \<and> (case sdk_create eng memoryPath of
                    Inl m \<Rightarrow> res = (Inl (EngineError m), lockfile_release l w3)
                  | Inr (h, c) \<Rightarrow>
                      res = (Inr \<lparr>m_memvid = h, m_config = config, m_sessionId = sid,
                                   m_directory = directory, m_initialized = True,
                                   m_sessionStartTime = startTime\<rparr>,
                             pruneBackups hst memoryPath 3
                               (lockfile_release l (fs_write w3 memoryPath c))))))"
proof -
  define l where "l = memoryPath @ ''.lock''"
  define b where "b = memoryPath @ ''.backup-'' @ digits_of now"
  define w1 where "w1 = (if existsSync w l then w else fs_write w l [])"
  define w2 where "w2 = w1\<lparr>held := l # held w1, lock_log := lock_log w1 @ [Acquired l]\<rparr>"
  define w3 where "w3 = (if memoryPath \<notin> set (rename_denied w)
             then fs_write (fs_remove w2 memoryPath) b content
             else if memoryPath \<notin> set (unlink_denied w) then fs_remove w2 memoryPath
             else w2)"
  define res where "res = Mind_open hst eng directory config now sid startTime w"
  have rd: "rename_denied w2 = rename_denied w" "unlink_denied w2 = unlink_denied w"
    by (simp_all add: w2_def w1_def fs_write_def)
  have r2: "fs_read w2 memoryPath = Some content"
    using ex by (simp add: w2_def w1_def l_def)
  have r2b: "fs_read w2 b = fs_read w b"
    by (simp add: w2_def w1_def l_def b_def)
  have wl: "withMindLock memoryPath (openStore eng memoryPath now) w =
            (fst (openStore eng memoryPath now w2),
             lockfile_release l (snd (openStore eng memoryPath now w2)))"
    using withMindLock_free [OF free, of "openStore eng memoryPath now"]
    by (simp add: Let_def w2_def w1_def l_def)
  have mo: "res =
        (case withMindLock memoryPath (openStore eng memoryPath now) w of
           (Inl e, w') \<Rightarrow> (Inl e, w')
         | (Inr h, w') \<Rightarrow>
             (Inr \<lparr>m_memvid = h, m_config = config, m_sessionId = sid,
                   m_directory = directory, m_initialized = True,
                   m_sessionStartTime = startTime\<rparr>,
              pruneBackups hst memoryPath 3 w'))"
    by (simp add: res_def Mind_open_def mp [symmetric])
  have A: "\<not> is_corruption msg \<Longrightarrow> res = (Inl (EngineError msg), lockfile_release l w2)"
    using openStore_unrecognised [OF r2 small fails] by (simp add: mo wl)
  have os: "is_corruption msg \<Longrightarrow> openStore eng memoryPath now w2 = createStore eng memoryPath w3"
    using openStore_corrupt [OF r2 small fails, of now] by (simp only: rd w3_def b_def)
  have B1: "memoryPath \<notin> set (rename_denied w) \<Longrightarrow>
              fs_read w3 b = Some content \<and> fs_read w3 memoryPath = None"
    by (simp add: w3_def b_def)
  have B2: "memoryPath \<in> set (rename_denied w) \<and> memoryPath \<notin> set (unlink_denied w) \<Longrightarrow>
              fs_read w3 b = fs_read w b \<and> fs_read w3 memoryPath = None"
    by (simp add: w3_def r2b) (simp add: b_def)
  have B3: "is_corruption msg \<Longrightarrow>
     (case sdk_create eng memoryPath of
        Inl m \<Rightarrow> res = (Inl (EngineError m), lockfile_release l w3)
      | Inr (h, c) \<Rightarrow>
          res = (Inr \<lparr>m_memvid = h, m_config = config, m_sessionId = sid,
                       m_directory = directory, m_initialized = True,
                       m_sessionStartTime = startTime\<rparr>,
                 pruneBackups hst memoryPath 3 (lockfile_release l (fs_write w3 memoryPath c))))"
    by (simp add: mo wl os createStore_def split: sum.splits prod.splits)
  show ?thesis
    using A B1 B2 B3
    unfolding Let_def l_def [symmetric] b_def [symmetric] w1_def [symmetric] w2_def [symmetric]
      w3_def [symmetric] res_def [symmetric]
    by blast
qed



lemma unlink_denied_fs_remove [simp]: "unlink_denied (fs_remove w p) = unlink_denied w"
  by (simp add: fs_remove_def)


theorem Mind_open_use_failure_witness:
  "fst (Mind_open sample_host demo_engine ''/proj'' DEFAULT_CONFIG 1700000000000 ''0123456789abcdef''
          1700000000001 w_corrupt)
     = Inr \<lparr>m_memvid = ''MV2'', m_config = DEFAULT_CONFIG, m_sessionId = ''0123456789abcdef'',
            m_directory = ''/proj'', m_initialized = True, m_sessionStartTime = 1700000000001\<rparr>
   \<and> Mind_open sample_host demo_engine ''/proj'' DEFAULT_CONFIG 1700000000000 ''0123456789abcdef''
          1700000000001 w_unreadable
     = (Inl (EngineError ''Permission denied''),
        w_unreadable\<lparr>files := [(''/proj/.claude/mind.mv2'', ''unreadable''),
                                (''/proj/.claude/mind.mv2.lock'', [])],
                     lock_log := [Acquired ''/proj/.claude/mind.mv2.lock'',
                                  Released ''/proj/.claude/mind.mv2.lock'']\<rparr>)"
proof -
  have mp: "''/proj/.claude/mind.mv2'' = path_resolve ''/proj'' (cfg_memoryPath DEFAULT_CONFIG)"
    by code_simp
  have free: "''/proj/.claude/mind.mv2'' @ ''.lock'' \<notin> set (held w_corrupt)"
    "''/proj/.claude/mind.mv2'' @ ''.lock'' \<notin> set (held w_unreadable)"
    by (simp_all add: w_corrupt_def w_unreadable_def w_empty_def)
  have ex: "fs_read w_corrupt ''/proj/.claude/mind.mv2'' = Some ''garbage''"
    "fs_read w_unreadable ''/proj/.claude/mind.mv2'' = Some ''unreadable''"
    by (simp_all add: w_corrupt_def w_unreadable_def w_empty_def fs_read_def)
  have small: "length ''garbage'' \<le> 104857600" "length ''unreadable'' \<le> 104857600"
    by simp_all
  have fails: "sdk_use demo_engine ''/proj/.claude/mind.mv2'' (Some ''garbage'')
                 = Inl ''Deserialization failed: bad header''"
    "sdk_use demo_engine ''/proj/.claude/mind.mv2'' (Some ''unreadable'') = Inl ''Permission denied''"
    by (simp_all add: demo_engine_def)
  have cor: "is_corruption ''Deserialization failed: bad header''"
    "\<not> is_corruption ''Permission denied''"
    by code_simp+
  have cr: "sdk_create demo_engine ''/proj/.claude/mind.mv2'' = Inr (''MV2'', ''MV2'')"
    by (simp add: demo_engine_def)
  have A: "fst (Mind_open sample_host demo_engine ''/proj'' DEFAULT_CONFIG 1700000000000 ''0123456789abcdef''
          1700000000001 w_corrupt)
     = Inr \<lparr>m_memvid = ''MV2'', m_config = DEFAULT_CONFIG, m_sessionId = ''0123456789abcdef'',
            m_directory = ''/proj'', m_initialized = True, m_sessionStartTime = 1700000000001\<rparr>"
    using Mind_open_use_failure [OF mp free(1) ex(1) small(1) fails(1),
            where now = 1700000000000 and sid = "''0123456789abcdef''" and startTime = 1700000000001]
      cor(1) cr
    by (simp add: Let_def)
  have B: "Mind_open sample_host demo_engine ''/proj'' DEFAULT_CONFIG 1700000000000 ''0123456789abcdef''
          1700000000001 w_unreadable
     = (Inl (EngineError ''Permission denied''),
        w_unreadable\<lparr>files := [(''/proj/.claude/mind.mv2'', ''unreadable''),
                                (''/proj/.claude/mind.mv2.lock'', [])],
                     lock_log := [Acquired ''/proj/.claude/mind.mv2.lock'',
                                  Released ''/proj/.claude/mind.mv2.lock'']\<rparr>)"
    using Mind_open_use_failure [OF mp free(2) ex(2) small(2) fails(2),
            where now = 1700000000000 and sid = "''0123456789abcdef''" and startTime = 1700000000001]
      cor(2)
    by (simp add: Let_def w_unreadable_def w_empty_def existsSync_def fs_read_def fs_write_def
        lockfile_release_def)
  from A B show ?thesis by simp
qed

lemma startsWith_append: "startsWith (p @ s) p"
  by (simp add: startsWith_iff)






text \<open>The two ways in which \<open>pruneBackups\<close> gives up before it deletes anything.\<close>

lemma pruneBackups_no_pattern:
  "RegExp_new h (backupSource (base_name p)) = None \<Longrightarrow> pruneBackups h p n w = w"
  by (simp add: pruneBackups_def)

lemma pruneBackups_no_listing:
  "path_dirname p \<in> set (readdir_denied w) \<Longrightarrow> pruneBackups h p n w = w"
  by (simp add: pruneBackups_def readdirSync_def split: option.splits)















lemma foldl_digits:
  "foldl (\<lambda>a c. 10 * a + (of_char c - 48)) acc ds
     = acc * 10 ^ length ds + foldl (\<lambda>a c. 10 * a + (of_char c - 48)) (0 :: nat) ds"
proof (induction ds arbitrary: acc)
  case Nil
  then show ?case by simp
next
  case (Cons c cs)
  show ?case
    using Cons.IH [of "10 * acc + (of_char c - 48)"] Cons.IH [of "of_char c - 48"]
    by (simp add: algebra_simps)
qed

lemma digits_val_append: "digits_val (a @ b) = digits_val a * 10 ^ length b + digits_val b"
  using foldl_digits [of "digits_val a" b] by (simp add: digits_val_def)

lemma digits_val_Cons: "digits_val (c # cs) = (of_char c - 48) * 10 ^ length cs + digits_val cs"
  using digits_val_append [of "[c]" cs] by (simp add: digits_val_def)

lemma digits_val_zeros: "\<forall>c \<in> set zs. c = CHR ''0'' \<Longrightarrow> digits_val zs = 0"
  by (induction zs) (auto simp: digits_val_Cons, simp add: digits_val_def)







lemma unlink_denied_fs_write [simp]: "unlink_denied (fs_write w p c) = unlink_denied w"
  by (simp add: fs_write_def)

lemma unlink_denied_try_unlink [simp]: "unlink_denied (try_unlink w p) = unlink_denied w"
  by (simp add: try_unlink_def unlinkSync_def)

lemma unlink_denied_createStore [simp]:
  "unlink_denied (snd (createStore eng p w)) = unlink_denied w"
  by (simp add: createStore_def split: sum.splits prod.splits)



lemma readdir_denied_fs_write [simp]: "readdir_denied (fs_write w p c) = readdir_denied w"
  by (simp add: fs_write_def)

lemma readdir_denied_fs_remove [simp]: "readdir_denied (fs_remove w p) = readdir_denied w"
  by (simp add: fs_remove_def)

lemma readdir_denied_try_unlink [simp]: "readdir_denied (try_unlink w p) = readdir_denied w"
  by (simp add: try_unlink_def unlinkSync_def split: option.splits if_splits)

lemma readdir_denied_createStore [simp]:
  "readdir_denied (snd (createStore eng p w)) = readdir_denied w"
  by (simp add: createStore_def split: sum.splits prod.splits)







section \<open>Properties of \<open>remember\<close>\<close>

lemma in_put_entry: "(k, v) \<in> set (put_entry xs k v)"
  by (induction xs k v rule: put_entry.induct) auto

lemma keys_put_entry: "fst ` set (put_entry xs k v) = insert k (fst ` set xs)"
  by (induction xs k v rule: put_entry.induct) auto

lemma distinct_put_entry: "distinct (map fst xs) \<Longrightarrow> distinct (map fst (put_entry xs k v))"
proof (induction xs k v rule: put_entry.induct)
  case (1 k v)
  then show ?case by simp
next
  case (2 k' v' rest k v)
  then show ?case using keys_put_entry [of rest k v] by (auto simp del: image_insert)
qed

lemma distinct_foldl_put:
  "distinct (map fst a) \<Longrightarrow> distinct (map fst (foldl (\<lambda>acc (k, v). put_entry acc k v) a b))"
  by (induction b arbitrary: a) (auto simp: distinct_put_entry)

lemma map_of_foldl_put:
  "map_of (foldl (\<lambda>acc (k, v). put_entry acc k v) a b) k =
     (case map_of (rev b) k of None \<Rightarrow> map_of a k | Some v \<Rightarrow> Some v)"
  by (induction b arbitrary: a)
     (auto simp: map_of_put_entry map_add_def split: option.splits)

lemma set_object_entries: "set (object_entries kvs) = set kvs"
  by (auto simp: object_entries_def)

lemma distinct_object_entries:
  assumes "distinct (map fst kvs)"
  shows "distinct (map fst (object_entries kvs))"
proof -
  let ?A = "filter (\<lambda>(k, v). is_array_index k) kvs"
  let ?B = "filter (\<lambda>(k, v). \<not> is_array_index k) kvs"
  have d: "distinct kvs" "inj_on fst (set kvs)"
    using assms by (simp_all add: distinct_map)
  have "distinct (map fst (sort_key (\<lambda>(k, v). digits_val k) ?A))"
    using d by (auto simp: distinct_map intro: inj_on_subset)
  moreover have "distinct (map fst ?B)"
    using assms by (rule distinct_map_filter)
  moreover have "fst ` set (sort_key (\<lambda>(k, v). digits_val k) ?A) \<inter> fst ` set ?B = {}"
    by auto
  ultimately show ?thesis
    by (simp add: object_entries_def)
qed

lemma map_of_distinct_member:
  "distinct (map fst b) \<Longrightarrow> (k, v) \<in> set b \<Longrightarrow>
   map_of (foldl (\<lambda>acc (k, v). put_entry acc k v) a b) k = Some v"
proof -
  assume d: "distinct (map fst b)" and m: "(k, v) \<in> set b"
  have "map_of (rev b) k = Some v"
    using d m by (intro map_of_is_SomeI) (simp_all add: rev_map [symmetric])
  then show ?thesis by (simp add: map_of_foldl_put)
qed

lemma map_of_spread_member:
  assumes "distinct (map fst a)" "distinct (map fst b)" "(k, v) \<in> set b"
  shows "map_of (obj_spread a b) k = Some v"
proof -
  let ?m = "foldl (\<lambda>acc (k, v). put_entry acc k v) a b"
  have "distinct (map fst ?m)" using assms(1) by (rule distinct_foldl_put)
  then have dd: "distinct (map fst (object_entries ?m))" by (rule distinct_object_entries)
  have "map_of ?m k = Some v" using assms(2,3) by (rule map_of_distinct_member)
  then have "(k, v) \<in> set ?m" by (rule map_of_SomeD)
  then have "(k, v) \<in> set (object_entries ?m)" by (simp add: set_object_entries)
  with dd show ?thesis unfolding obj_spread_def by (rule map_of_is_SomeI)
qed

lemma distinct_spread: "distinct (map fst a) \<Longrightarrow> distinct (map fst (obj_spread a b))"
  unfolding obj_spread_def by (intro distinct_object_entries distinct_foldl_put)

lemma member_spread_last: "(k, v) \<in> set (obj_spread a (b @ [(k, v)]))"
  by (simp add: obj_spread_def set_object_entries in_put_entry)

lemma rememberFrame_source:
  "map_of (f_metadata (rememberFrame mind input newId now)) ''source''
     = Some (JStr (effectiveSource input))"
proof -
  let ?sid = "effectiveSessionId mind input"
  let ?src = "effectiveSource input"
  let ?m0 = "obj_spread [] (case in_metadata input of None \<Rightarrow> [] | Some m \<Rightarrow> m)"
  let ?obs = "obj_spread ?m0 [(''sessionId'', ?sid), (''source'', JStr ?src)]"
  have d0: "distinct (map fst ?m0)" by (rule distinct_spread) simp
  have d1: "distinct (map fst ?obs)" using d0 by (rule distinct_spread)
  have m1: "(''source'', JStr ?src) \<in> set ?obs"
    using member_spread_last [of "''source''" "JStr ?src" ?m0 "[(''sessionId'', ?sid)]"] by simp
  have "map_of (obj_spread
          [(''observationId'', JStr newId), (''timestamp'', JNum (int now)),
           (''tool'', case in_tool input of None \<Rightarrow> JUndefined | Some t \<Rightarrow> JStr t),
           (''sessionId'', ?sid), (''source'', JStr ?src)] ?obs) ''source'' = Some (JStr ?src)"
    using _ d1 m1 by (rule map_of_spread_member) simp
  then show ?thesis by (simp add: rememberFrame_def Let_def)
qed

text \<open>
  Claim C7. The record \<open>Mind.remember\<close> hands to the engine's \<open>put\<close> carries
  \<open>metadata.source\<close> in the set of \<open>opencode\<close> and \<open>claude-code\<close>: a source of
  the input that is one of the two is kept, and an input whose source is absent or
  anything else is stored with \<open>opencode\<close>. A frame identifier \<open>remember\<close> returns
  is the one \<open>put\<close> gave for that record.
\<close>

theorem remember_source:
  "(let fr = rememberFrame mind input newId now;
        raw = get_prop (in_metadata input) ''source''
    in map_of (f_metadata fr) ''source'' = Some (JStr (effectiveSource input))
     \<and> effectiveSource input \<in> {''opencode'', ''claude-code''}
     \<and> (raw = Some (JStr ''opencode'') \<or> raw = Some (JStr ''claude-code'')
          \<longrightarrow> raw = Some (JStr (effectiveSource input)))
     \<and> (raw \<noteq> Some (JStr ''opencode'') \<and> raw \<noteq> Some (JStr ''claude-code'')
          \<longrightarrow> effectiveSource input = ''opencode'')
     \<and> (\<forall>fid w'. remember eng mind input newId now w = (Inr fid, w') \<longrightarrow>
           (\<exists>h c. sdk_put eng h fr = Inr (fid, c) \<and> fs_read w' (getMemoryPath mind) = Some c)))"
proof -
  have A: "effectiveSource input \<in> {''opencode'', ''claude-code''}"
    by (auto simp: effectiveSource_def VALID_SOURCES_def Let_def split: option.splits jsval.splits)
  have B: "get_prop (in_metadata input) ''source'' = Some (JStr ''opencode'')
           \<or> get_prop (in_metadata input) ''source'' = Some (JStr ''claude-code'')
           \<Longrightarrow> get_prop (in_metadata input) ''source'' = Some (JStr (effectiveSource input))"
    by (auto simp: effectiveSource_def VALID_SOURCES_def Let_def)
  have C: "get_prop (in_metadata input) ''source'' \<noteq> Some (JStr ''opencode'')
           \<and> get_prop (in_metadata input) ''source'' \<noteq> Some (JStr ''claude-code'')
           \<Longrightarrow> effectiveSource input = ''opencode''"
    by (auto simp: effectiveSource_def VALID_SOURCES_def Let_def split: option.splits jsval.splits)
  have D: "remember eng mind input newId now w = (Inr fid, w') \<Longrightarrow>
           (\<exists>h c. sdk_put eng h (rememberFrame mind input newId now) = Inr (fid, c)
                  \<and> fs_read w' (getMemoryPath mind) = Some c)" for fid w'
    by (auto simp: remember_def withMindLock_def Let_def lockfile_lock_def
        split: if_splits sum.splits prod.splits)
  show ?thesis
    unfolding Let_def using rememberFrame_source A B C D by blast
qed

theorem remember_source_witness:
  "map_of (f_metadata (rememberFrame demo_mind
       (demo_input (Some [(''source'', JStr ''claude-code''), (''sessionId'', JStr ''cc-session-1'')]))
       ''00112233aabbccdd'' 1700000000000)) ''source'' = Some (JStr ''claude-code'')
   \<and> map_of (f_metadata (rememberFrame demo_mind
       (demo_input (Some [(''source'', JStr ''vscode'')]))
       ''00112233aabbccdd'' 1700000000000)) ''source'' = Some (JStr ''opencode'')
   \<and> map_of (f_metadata (rememberFrame demo_mind (demo_input None)
       ''00112233aabbccdd'' 1700000000000)) ''source'' = Some (JStr ''opencode'')"
proof -
  have r1: "get_prop (in_metadata (demo_input
              (Some [(''source'', JStr ''claude-code''), (''sessionId'', JStr ''cc-session-1'')])))
              ''source'' = Some (JStr ''claude-code'')"
    by (simp add: demo_input_def get_prop_def)
  have r2: "get_prop (in_metadata (demo_input (Some [(''source'', JStr ''vscode'')]))) ''source''
              = Some (JStr ''vscode'')"
    by (simp add: demo_input_def get_prop_def)
  have r3: "get_prop (in_metadata (demo_input None)) ''source'' = None"
    by (simp add: demo_input_def get_prop_def)
  show ?thesis
    using remember_source [where mind = demo_mind and newId = "''00112233aabbccdd''"
             and now = 1700000000000 and eng = demo_engine and w = w_empty
             and input = "demo_input (Some [(''source'', JStr ''claude-code''),
                                            (''sessionId'', JStr ''cc-session-1'')])"]
      remember_source [where mind = demo_mind and newId = "''00112233aabbccdd''"
             and now = 1700000000000 and eng = demo_engine and w = w_empty
             and input = "demo_input (Some [(''source'', JStr ''vscode'')])"]
      remember_source [where mind = demo_mind and newId = "''00112233aabbccdd''"
             and now = 1700000000000 and eng = demo_engine and w = w_empty
             and input = "demo_input None"]
    unfolding Let_def r1 r2 r3
    by simp
qed

end
